theory Spec2Isabelle
  imports Complex_Main "HOL-Library.Sublist" "HOL-Library.Multiset" "HOL-Library.Word"
begin

section \<open>Python values, strings and paths\<close>

text \<open>
  Strings are lists of characters with code points below 256. The string methods the
  module calls are written out on that range: \<open>str.strip\<close> removes the characters
  for which \<open>str.isspace\<close> holds, \<open>str.lower\<close> maps the upper-case letters of
  ASCII and Latin-1 to their lower-case forms. Paths follow \<open>posixpath\<close>.
\<close>

definition isspace :: "char \<Rightarrow> bool" where
  "isspace c =
     (let n = (of_char c :: nat)
      in (9 \<le> n \<and> n \<le> 13) \<or> (28 \<le> n \<and> n \<le> 32) \<or> n = 133 \<or> n = 160)"

definition strip :: "string \<Rightarrow> string" where
  "strip s = rev (dropWhile isspace (rev (dropWhile isspace s)))"

definition lower_char :: "char \<Rightarrow> char" where
  "lower_char c =
     (let n = (of_char c :: nat)
      in if (65 \<le> n \<and> n \<le> 90) \<or> (192 \<le> n \<and> n \<le> 222 \<and> n \<noteq> 215)
         then char_of (n + 32) else c)"

definition lower :: "string \<Rightarrow> string" where
  "lower s = map lower_char s"

definition slash :: char where
  "slash = CHR ''/''"

definition backslash :: char where
  "backslash = CHR 0x5C"

definition replace_backslash :: "string \<Rightarrow> string" where
  \<comment> \<open>\<open>s.replace("\\", "/")\<close>\<close>
  "replace_backslash s = map (\<lambda>c. if c = backslash then slash else c) s"

definition startswith :: "string \<Rightarrow> string \<Rightarrow> bool" where
  "startswith s p = prefix p s"

definition endswith :: "string \<Rightarrow> string \<Rightarrow> bool" where
  "endswith s p = suffix p s"

definition split_slash_1 :: "string \<Rightarrow> string list" where
  \<comment> \<open>\<open>s.split("/", 1)\<close>: at most one split, at the first slash\<close>
  "split_slash_1 s =
     (case dropWhile (\<lambda>c. c \<noteq> slash) s of
        [] \<Rightarrow> [s]
      | _ # rest \<Rightarrow> [takeWhile (\<lambda>c. c \<noteq> slash) s, rest])"

definition os_path_join :: "string \<Rightarrow> string \<Rightarrow> string" where
  \<comment> \<open>\<open>posixpath.join(a, b)\<close>\<close>
  "os_path_join a b =
     (if startswith b [slash] then b
      else if a = [] \<or> endswith a [slash] then a @ b
      else a @ [slash] @ b)"

definition os_path_basename :: "string \<Rightarrow> string" where
  \<comment> \<open>\<open>posixpath.basename(p)\<close>: what follows the last slash\<close>
  "os_path_basename p = rev (takeWhile (\<lambda>c. c \<noteq> slash) (rev p))"

type_synonym byte = "8 word"

record ndarray =
  shape :: "nat list"
  data :: "byte list"

record tensor =
  tshape :: "nat list"
  tdata :: "rat list"

datatype pyval =
    PNone
  | PStr string
  | PDict "(string \<times> pyval) list"
  | PList "pyval list"
  | PTuple "pyval list"
  | PTensor tensor
  | POther

datatype exn =
    ValueError string
  | FileNotFoundError string
  | RuntimeError string
  | ImportError string
  | IndexError string
  | AttributeError string
  | OSError string

fun str_of_exn :: "exn \<Rightarrow> string" where
  "str_of_exn (ValueError m) = m"
| "str_of_exn (FileNotFoundError m) = m"
| "str_of_exn (RuntimeError m) = m"
| "str_of_exn (ImportError m) = m"
| "str_of_exn (IndexError m) = m"
| "str_of_exn (AttributeError m) = m"
| "str_of_exn (OSError m) = m"

section \<open>The host: file system, host modules and decoding backends\<close>

text \<open>
  Every call that leaves the module (the file system, \<open>folder_paths\<close>, the decoders,
  the image writer) is answered by the host. A call that touches the file system or
  opens a file with a decoding backend is recorded as an event, in program order.
  \<open>None\<close> for a module of the host means that importing it raises.
  A capture answers \<open>cap.read()\<close> from its list \<open>reads\<close> (\<open>None\<close> is a failed
  read, and every read after the end of the list fails); \<open>reads_after_set n\<close> is what
  it answers after \<open>cap.set(CAP_PROP_POS_FRAMES, n)\<close>.
\<close>

datatype event =
    IsFile string
  | IsDir string
  | ListDir string
  | GetMTime string
  | MakeDirs string
  | WriteFile string "byte list"
  | SavePng string ndarray
  | VideoCapture string
  | ImRead string int

record folder_paths_module =
  get_input_directory :: "exn + string"
  get_output_directory :: "exn + string"
  get_temp_directory :: "exn + string"

record capture =
  isOpened :: bool
  reads :: "ndarray option list"
  frame_count_prop :: rat
  reads_after_set :: "int \<Rightarrow> ndarray option list"

record cv2_module =
  open_capture :: "string \<Rightarrow> capture"
  cvtColor_BGR2RGB :: "ndarray \<Rightarrow> ndarray"

record host =
  folder_paths :: "folder_paths_module option"
  isfile :: "string \<Rightarrow> bool"
  isdir :: "string \<Rightarrow> bool"
  listdir :: "string \<Rightarrow> exn + string list"
  getmtime :: "string \<Rightarrow> exn + rat"
  makedirs :: "string \<Rightarrow> exn option"
  write_file :: "string \<Rightarrow> byte list \<Rightarrow> exn option"
  expanduser :: "string \<Rightarrow> string"
  expandvars :: "string \<Rightarrow> string"
  cv2 :: "cv2_module option"
  imageio :: "(string \<Rightarrow> int \<Rightarrow> exn + ndarray) option"
  pil_save :: "(ndarray \<Rightarrow> string \<Rightarrow> exn option) option"
  uuid4_hex :: string

text \<open>
  A computation returns a value or raises, and leaves the events of its host calls.
\<close>

type_synonym 'a py = "(exn + 'a) \<times> event list"

definition return :: "'a \<Rightarrow> 'a py" where
  "return x = (Inr x, [])"

definition raise :: "exn \<Rightarrow> 'a py" where
  "raise e = (Inl e, [])"

definition lift :: "exn + 'a \<Rightarrow> 'a py" where
  "lift r = (r, [])"

definition emit :: "event \<Rightarrow> 'a \<Rightarrow> 'a py" where
  "emit ev x = (Inr x, [ev])"

definition bind :: "'a py \<Rightarrow> ('a \<Rightarrow> 'b py) \<Rightarrow> 'b py" where
  "bind m f =
     (case m of
        (Inl e, t) \<Rightarrow> (Inl e, t)
      | (Inr a, t) \<Rightarrow> (case f a of (r, t') \<Rightarrow> (r, t @ t')))"

definition except_pass :: "'a option py \<Rightarrow> 'a option py" where
  \<comment> \<open>\<open>try: ... except Exception: pass\<close> around a block that may return a value\<close>
  "except_pass m = (case m of (Inl e, t) \<Rightarrow> (Inr None, t) | (Inr r, t) \<Rightarrow> (Inr r, t))"

definition import_folder_paths :: "host \<Rightarrow> folder_paths_module py" where
  "import_folder_paths h =
     (case folder_paths h of
        None \<Rightarrow> raise (ImportError ''No module named folder_paths'')
      | Some fp \<Rightarrow> return fp)"

definition os_path_isfile :: "host \<Rightarrow> string \<Rightarrow> bool py" where
  "os_path_isfile h p = emit (IsFile p) (isfile h p)"

section \<open>Path resolution\<close>

definition index1 :: "string list \<Rightarrow> exn + string" where
  \<comment> \<open>\<open>parts[1]\<close>\<close>
  "index1 parts =
     (case parts of
        _ # x # _ \<Rightarrow> Inr x
      | _ \<Rightarrow> Inl (IndexError ''list index out of range''))"

definition prefix_rule ::
  "host \<Rightarrow> string \<Rightarrow> string \<Rightarrow> string \<Rightarrow> (exn + string) \<Rightarrow> string option py" where
  \<comment> \<open>one \<open>if lowered.startswith(pre): ...\<close> of the first block; \<open>Some\<close> is a return\<close>
  "prefix_rule h lowered video pre directory =
     (if startswith lowered pre then
        bind (lift directory) (\<lambda>d.
        bind (lift (index1 (split_slash_1 video))) (\<lambda>rest.
        let candidate = os_path_join d rest in
        bind (os_path_isfile h candidate) (\<lambda>ok.
        return (if ok then Some candidate else None))))
      else return None)"

definition prefixed_block :: "host \<Rightarrow> string \<Rightarrow> string \<Rightarrow> string option py" where
  "prefixed_block h lowered video =
     bind (import_folder_paths h) (\<lambda>fp.
     bind (prefix_rule h lowered video ''input/'' (get_input_directory fp)) (\<lambda>r1.
     case r1 of Some c \<Rightarrow> return (Some c) | None \<Rightarrow>
     bind (prefix_rule h lowered video ''output/'' (get_output_directory fp)) (\<lambda>r2.
     case r2 of Some c \<Rightarrow> return (Some c) | None \<Rightarrow>
     prefix_rule h lowered video ''temp/'' (get_temp_directory fp))))"

definition plain_block :: "host \<Rightarrow> string \<Rightarrow> string option py" where
  "plain_block h video =
     bind (import_folder_paths h) (\<lambda>fp.
     bind (lift (get_input_directory fp)) (\<lambda>input_dir.
     let candidate = os_path_join input_dir video in
     bind (os_path_isfile h candidate) (\<lambda>ok.
     return (if ok then Some candidate else None))))"

definition resolve_video_path :: "host \<Rightarrow> string option \<Rightarrow> string py" where
  "resolve_video_path h video0 =
     (let video = strip (case video0 of None \<Rightarrow> [] | Some v \<Rightarrow> v) in
      if video = [] then return video
      else
        let lowered = lower (replace_backslash video) in
        bind (except_pass (prefixed_block h lowered video)) (\<lambda>r.
        case r of Some c \<Rightarrow> return c | None \<Rightarrow>
        bind (except_pass (plain_block h video)) (\<lambda>r'.
        case r' of Some c \<Rightarrow> return c | None \<Rightarrow> return video)))"

section \<open>Tensor conversion\<close>

text \<open>
  \<open>torch\<close> is taken to be importable. The tensor's values are the exact quotients:
  the rounding of the single-precision division is left out of the model. The message of
  the shape error is cut before the shape it prints.
\<close>

definition to_comfy_image :: "ndarray option \<Rightarrow> exn + tensor" where
  "to_comfy_image frame_rgb =
     (case frame_rgb of
        None \<Rightarrow> Inl (ValueError ''Got empty frame'')
      | Some a \<Rightarrow>
          if length (shape a) \<noteq> 3 \<or> shape a ! 2 \<noteq> 3
          then Inl (ValueError ''Expected RGB HxWx3 frame'')
          else Inr \<lparr>tshape = 1 # shape a,
                    tdata = map (\<lambda>b. of_nat (unat b) / 255) (data a)\<rparr>)"

section \<open>Frame decoding\<close>

text \<open>
  The OpenCV path, on a capture of the host. \<open>cap.release()\<close> has no effect that the
  function's result or the later calls depend on and is left out. After a seek whose read
  fails, the scan goes on from where the seek left the capture, as in the source.
\<close>

definition py_int :: "rat \<Rightarrow> int" where
  \<comment> \<open>\<open>int(x)\<close> on a float: truncation towards zero\<close>
  "py_int x = (if 0 \<le> x then \<lfloor>x\<rfloor> else \<lceil>x\<rceil>)"

definition cap_read :: "capture \<Rightarrow> ndarray option \<times> capture" where
  \<comment> \<open>\<open>ok, frame = cap.read()\<close>; \<open>None\<close> stands for \<open>not ok or frame is None\<close>\<close>
  "cap_read cap =
     (case reads cap of
        [] \<Rightarrow> (None, cap)
      | r # rest \<Rightarrow> (r, cap\<lparr>reads := rest\<rparr>))"

definition cap_set_pos :: "capture \<Rightarrow> int \<Rightarrow> capture" where
  "cap_set_pos cap n = cap\<lparr>reads := reads_after_set cap n\<rparr>"

fun scan_to_end :: "ndarray option list \<Rightarrow> ndarray \<Rightarrow> ndarray" where
  \<comment> \<open>the \<open>while True\<close> loop, on the reads that remain\<close>
  "scan_to_end [] last_bgr = last_bgr"
| "scan_to_end (None # rest) last_bgr = last_bgr"
| "scan_to_end (Some frame_bgr # rest) last_bgr = scan_to_end rest frame_bgr"

definition read_with_cv2 :: "cv2_module \<Rightarrow> string \<Rightarrow> (ndarray \<times> ndarray) py" where
  "read_with_cv2 m video_path =
     bind (emit (VideoCapture video_path) (open_capture m video_path)) (\<lambda>cap.
     if \<not> isOpened cap then raise (ValueError (''Failed to open video: '' @ video_path))
     else
       case cap_read cap of
         (None, _) \<Rightarrow> raise (ValueError ''Failed to read the first frame'')
       | (Some first_bgr, cap1) \<Rightarrow>
           let first_rgb = cvtColor_BGR2RGB m first_bgr;
               frame_count = py_int (frame_count_prop cap1);
               (last_rgb, cap2) =
                 (if frame_count > 1 then
                    (case cap_read (cap_set_pos cap1 (frame_count - 1)) of
                       (Some last_bgr, c) \<Rightarrow> (Some (cvtColor_BGR2RGB m last_bgr), c)
                     | (None, c) \<Rightarrow> (None, c))
                  else (None, cap1))
           in return (first_rgb,
                case last_rgb of
                  Some l \<Rightarrow> l
                | None \<Rightarrow> cvtColor_BGR2RGB m (scan_to_end (reads cap2) first_bgr)))"

fun chunks :: "nat \<Rightarrow> 'a list \<Rightarrow> 'a list list" where
  "chunks n xs = (if n = 0 \<or> xs = [] then [] else take n xs # chunks n (drop n xs))"

definition first_three_channels :: "ndarray \<Rightarrow> ndarray" where
  \<comment> \<open>\<open>a[:, :, :3]\<close> when \<open>a.ndim == 3 and a.shape[2] >= 3\<close>\<close>
  "first_three_channels a =
     (if length (shape a) = 3 \<and> shape a ! 2 \<ge> 3
      then \<lparr>shape = [shape a ! 0, shape a ! 1, 3],
            data = concat (map (take 3) (chunks (shape a ! 2) (data a)))\<rparr>
      else a)"

definition imread :: "(string \<Rightarrow> int \<Rightarrow> exn + ndarray) \<Rightarrow> string \<Rightarrow> int \<Rightarrow> ndarray py" where
  "imread iio path i = (iio path i, [ImRead path i])"

definition read_with_imageio :: "host \<Rightarrow> string \<Rightarrow> (ndarray \<times> ndarray) py" where
  "read_with_imageio h video_path =
     (case
        (case imageio h of
           None \<Rightarrow> raise (ImportError ''No module named imageio'')
         | Some iio \<Rightarrow>
             bind (imread iio video_path 0) (\<lambda>first.
             bind (imread iio video_path (- 1)) (\<lambda>last.
             return (first_three_channels first, first_three_channels last))))
      of
        (Inl e, t) \<Rightarrow>
          (Inl (RuntimeError
                 (''Could not read video frames. Install opencv-python (recommended) or '' @
                  ''imageio[ffmpeg]. Original error: '' @ str_of_exn e)), t)
      | (Inr r, t) \<Rightarrow> (Inr r, t))"

definition read_first_last_frames :: "host \<Rightarrow> pyval \<Rightarrow> (ndarray \<times> ndarray) py" where
  "read_first_last_frames h video_path =
     (case video_path of
        PStr s \<Rightarrow>
          if strip s = [] then raise (ValueError ''video_path is required'')
          else
            let path = expandvars h (expanduser h (strip s)) in
            bind (os_path_isfile h path) (\<lambda>ok.
            if \<not> ok then raise (FileNotFoundError (''Video file not found: '' @ path))
            else
              case cv2 h of
                Some m \<Rightarrow> read_with_cv2 m path
              | None \<Rightarrow> read_with_imageio h path)
      | _ \<Rightarrow> raise (ValueError ''video_path is required''))"

section \<open>Source resolution\<close>

definition path_keys :: "string list" where
  "path_keys = [''path'', ''fullpath'', ''filename'', ''file'', ''video'', ''name'']"

fun first_path_value :: "(string \<times> pyval) list \<Rightarrow> string list \<Rightarrow> string option" where
  \<comment> \<open>\<open>for key in (...): v = d.get(key); if isinstance(v, str) and v.strip(): return v\<close>\<close>
  "first_path_value d [] = None"
| "first_path_value d (key # keys) =
     (case map_of d key of
        Some (PStr v) \<Rightarrow> if strip v \<noteq> [] then Some v else first_path_value d keys
      | _ \<Rightarrow> first_path_value d keys)"

definition ndim :: "tensor \<Rightarrow> nat" where
  "ndim t = length (tshape t)"

definition unsqueeze0 :: "tensor \<Rightarrow> tensor" where
  "unsqueeze0 t = t\<lparr>tshape := 1 # tshape t\<rparr>"

definition slice_first :: "tensor \<Rightarrow> tensor" where
  \<comment> \<open>\<open>t[0:1]\<close> of a tensor with at least one dimension\<close>
  "slice_first t =
     \<lparr>tshape = min 1 (hd (tshape t)) # tl (tshape t),
      tdata = take (prod_list (tl (tshape t))) (tdata t)\<rparr>"

definition slice_last :: "tensor \<Rightarrow> tensor" where
  \<comment> \<open>\<open>t[-1:]\<close> of a tensor with at least one dimension\<close>
  "slice_last t =
     \<lparr>tshape = min 1 (hd (tshape t)) # tl (tshape t),
      tdata = drop ((hd (tshape t) - 1) * prod_list (tl (tshape t))) (tdata t)\<rparr>"

fun is_tensor :: "pyval \<Rightarrow> bool" where
  "is_tensor (PTensor t) = True"
| "is_tensor _ = False"

type_synonym source = "string option \<times> tensor option \<times> tensor option"

definition unwrap_dict :: "pyval \<Rightarrow> string + pyval" where
  \<comment> \<open>the \<open>isinstance(video_in, dict)\<close> block: \<open>Inl\<close> is its return, \<open>Inr\<close> the
      value \<open>video_in\<close> has after it\<close>
  "unwrap_dict video_in =
     (case video_in of
        PDict d \<Rightarrow>
          (case first_path_value d path_keys of
             Some v \<Rightarrow> Inl v
           | None \<Rightarrow>
               (case map_of d ''frames'' of
                  None \<Rightarrow> Inr video_in
                | Some PNone \<Rightarrow> Inr video_in
                | Some frames \<Rightarrow> Inr frames))
      | _ \<Rightarrow> Inr video_in)"

definition from_sequence :: "pyval list \<Rightarrow> source option" where
  \<comment> \<open>the body of \<open>if isinstance(video_in, (list, tuple)) and video_in\<close>;
      \<open>Some\<close> is a return\<close>
  "from_sequence items =
     (case items of
        [] \<Rightarrow> None
      | head # _ \<Rightarrow>
          (case (list_all is_tensor items, head, last items) of
             (True, PTensor first, PTensor lst) \<Rightarrow>
               Some (None,
                     Some (if ndim first = 3 then unsqueeze0 first else first),
                     Some (if ndim lst = 3 then unsqueeze0 lst else lst))
           | _ \<Rightarrow>
               (case head of
                  PStr s \<Rightarrow> Some (Some s, None, None)
                | PDict d \<Rightarrow>
                    (case first_path_value d path_keys of
                       Some v \<Rightarrow> Some (Some v, None, None)
                     | None \<Rightarrow> None)
                | _ \<Rightarrow> None)))"

definition from_tensor :: "pyval \<Rightarrow> source" where
  "from_tensor video_in =
     (case video_in of
        PTensor t \<Rightarrow>
          if ndim t = 4 \<and> hd (tshape t) \<ge> 1
          then (None, Some (slice_first t), Some (slice_last t))
          else (None, None, None)
      | _ \<Rightarrow> (None, None, None))"

definition extract_video_source :: "pyval \<Rightarrow> source" where
  "extract_video_source video_in =
     (case video_in of
        PNone \<Rightarrow> (None, None, None)
      | PStr s \<Rightarrow> (Some s, None, None)
      | _ \<Rightarrow>
          (case unwrap_dict video_in of
             Inl v \<Rightarrow> (Some v, None, None)
           | Inr video_in' \<Rightarrow>
               (case (case video_in' of
                        PList items \<Rightarrow> from_sequence items
                      | PTuple items \<Rightarrow> from_sequence items
                      | _ \<Rightarrow> None) of
                  Some r \<Rightarrow> r
                | None \<Rightarrow> from_tensor video_in')))"

section \<open>Preview persistence\<close>

record preview =
  filename :: string
  subfolder :: string
  storage_type :: string

definition os_makedirs :: "host \<Rightarrow> string \<Rightarrow> unit py" where
  \<comment> \<open>\<open>os.makedirs(d, exist_ok=True)\<close>\<close>
  "os_makedirs h d =
     (case makedirs h d of None \<Rightarrow> (Inr (), [MakeDirs d]) | Some e \<Rightarrow> (Inl e, [MakeDirs d]))"

definition import_PIL :: "host \<Rightarrow> (ndarray \<Rightarrow> string \<Rightarrow> exn option) py" where
  "import_PIL h =
     (case pil_save h of
        None \<Rightarrow> raise (ImportError ''No module named PIL'')
      | Some save \<Rightarrow> return save)"

definition image_save :: "(ndarray \<Rightarrow> string \<Rightarrow> exn option) \<Rightarrow> ndarray \<Rightarrow> string \<Rightarrow> unit py" where
  \<comment> \<open>\<open>Image.fromarray(frame).save(path)\<close>\<close>
  "image_save save frame path =
     (case save frame path of
        None \<Rightarrow> (Inr (), [SavePng path frame])
      | Some e \<Rightarrow> (Inl e, [SavePng path frame]))"

definition except_return_None :: "'a py \<Rightarrow> 'a option py" where
  \<comment> \<open>\<open>try: ...; return x  except Exception: return None\<close>\<close>
  "except_return_None m =
     (case m of (Inl e, t) \<Rightarrow> (Inr None, t) | (Inr x, t) \<Rightarrow> (Inr (Some x), t))"

definition persist_preview :: "host \<Rightarrow> ndarray \<Rightarrow> preview py" where
  \<comment> \<open>the body of the \<open>try\<close> of \<open>_save_temp_preview_png\<close>\<close>
  "persist_preview h frame_rgb =
     bind (import_folder_paths h) (\<lambda>fp.
     bind (import_PIL h) (\<lambda>save.
     bind (lift (get_temp_directory fp)) (\<lambda>temp_dir.
     bind (os_makedirs h temp_dir) (\<lambda>_.
     let name = ''videoframe_preview_'' @ uuid4_hex h @ ''.png'';
         path = os_path_join temp_dir name in
     bind (image_save save frame_rgb path) (\<lambda>_.
     return \<lparr>filename = name, subfolder = [], storage_type = ''temp''\<rparr>)))))"

definition save_temp_preview_png :: "host \<Rightarrow> ndarray \<Rightarrow> preview option py" where
  "save_temp_preview_png h frame_rgb = except_return_None (persist_preview h frame_rgb)"

section \<open>The node's operation\<close>

datatype load_output =
    Frames tensor tensor
  | WithUI preview tensor tensor

definition or_else :: "string option \<Rightarrow> string \<Rightarrow> string" where
  \<comment> \<open>\<open>path_from_in or video\<close>: \<open>None\<close> and the empty string are falsy\<close>
  "or_else a b = (case a of None \<Rightarrow> b | Some s \<Rightarrow> if s = [] then b else s)"

definition load :: "host \<Rightarrow> string \<Rightarrow> pyval \<Rightarrow> load_output py" where
  "load h video video_in =
     (case extract_video_source video_in of
        (path_from_in, Some first_tensor, Some last_tensor) \<Rightarrow>
          return (Frames first_tensor last_tensor)
      | (path_from_in, _, _) \<Rightarrow>
          bind (resolve_video_path h (Some (or_else path_from_in video))) (\<lambda>video_path.
          bind (read_first_last_frames h (PStr video_path)) (\<lambda>(first_rgb, last_rgb).
          bind (save_temp_preview_png h first_rgb) (\<lambda>preview.
          bind (lift (to_comfy_image (Some first_rgb))) (\<lambda>a.
          bind (lift (to_comfy_image (Some last_rgb))) (\<lambda>b.
          return (case preview of Some p \<Rightarrow> WithUI p a b | None \<Rightarrow> Frames a b)))))))"

section \<open>Upload and listing endpoints\<close>

text \<open>
  The handlers exist only when \<open>folder_paths\<close>, \<open>server\<close> and \<open>aiohttp\<close> were
  imported, so they take the \<open>folder_paths\<close> module as given. An exception that leaves a
  handler (\<open>Inl\<close>) is not a response of the handler.
\<close>

datatype field =
    StrField string
  | FileField string "byte list"

datatype json =
    JStr string
  | JList "string list"

record response =
  status :: nat
  body :: "(string \<times> json) list"

definition json_response :: "(string \<times> json) list \<Rightarrow> nat \<Rightarrow> response" where
  "json_response b st = \<lparr>status = st, body = b\<rparr>"

definition field_filename :: "field \<Rightarrow> string" where
  \<comment> \<open>\<open>getattr(file, "filename", None) or ""\<close>\<close>
  "field_filename f = (case f of FileField n d \<Rightarrow> n | StrField s \<Rightarrow> [])"

definition file_read :: "field \<Rightarrow> exn + byte list" where
  \<comment> \<open>\<open>file.file.read()\<close>\<close>
  "file_read f =
     (case f of
        FileField n d \<Rightarrow> Inr d
      | StrField s \<Rightarrow> Inl (AttributeError ''str object has no attribute file''))"

definition open_write :: "host \<Rightarrow> string \<Rightarrow> byte list \<Rightarrow> unit py" where
  \<comment> \<open>\<open>with open(path, "wb") as f: f.write(data)\<close>\<close>
  "open_write h path d =
     (case write_file h path d of
        None \<Rightarrow> (Inr (), [WriteFile path d])
      | Some e \<Rightarrow> (Inl e, [WriteFile path d]))"

definition videoframenode_upload ::
  "host \<Rightarrow> folder_paths_module \<Rightarrow> exn + (string \<times> field) list \<Rightarrow> response py" where
  "videoframenode_upload h fp request_post =
     (case request_post of
        Inl e \<Rightarrow>
          return (json_response [(''error'', JStr (''invalid form data: '' @ str_of_exn e))] 400)
      | Inr post \<Rightarrow>
          (case map_of post ''file'' of
             None \<Rightarrow> return (json_response [(''error'', JStr ''missing file'')] 400)
           | Some file \<Rightarrow>
               let fname = field_filename file in
               if \<not> endswith (lower fname) ''.mp4''
               then return (json_response [(''error'', JStr ''only .mp4 supported'')] 400)
               else
                 bind (lift (get_input_directory fp)) (\<lambda>input_dir.
                 bind (os_makedirs h input_dir) (\<lambda>_.
                 let safe_name = os_path_basename fname;
                     save_path = os_path_join input_dir safe_name in
                 bind (lift (file_read file)) (\<lambda>d.
                 bind (open_write h save_path d) (\<lambda>_.
                 return (json_response [(''name'', JStr safe_name)] 200)))))))"

definition getmtime_or_zero :: "host \<Rightarrow> string \<Rightarrow> rat" where
  \<comment> \<open>\<open>try: mtime = os.path.getmtime(p)  except Exception: mtime = 0\<close>\<close>
  "getmtime_or_zero h p = (case getmtime h p of Inl e \<Rightarrow> 0 | Inr m \<Rightarrow> m)"

fun scan_names ::
  "host \<Rightarrow> string \<Rightarrow> string \<Rightarrow> string list \<Rightarrow> (rat \<times> string) list \<times> event list" where
  \<comment> \<open>\<open>for name in os.listdir(directory)\<close>: the entries appended, and the events\<close>
  "scan_names h pre directory [] = ([], [])"
| "scan_names h pre directory (name # names) =
     (if \<not> endswith (lower name) ''.mp4'' then scan_names h pre directory names
      else
        let p = os_path_join directory name;
            mtime = getmtime_or_zero h p
        in case scan_names h pre directory names of
             (es, t) \<Rightarrow> ((mtime, pre @ ''/'' @ name) # es, GetMTime p # t))"

fun scan_candidates :: "host \<Rightarrow> (string \<times> string) list \<Rightarrow> (rat \<times> string) list py" where
  \<comment> \<open>\<open>for prefix, directory in candidates\<close>\<close>
  "scan_candidates h [] = (Inr [], [])"
| "scan_candidates h ((pre, directory) # cs) =
     (if \<not> isdir h directory then
        (case scan_candidates h cs of (r, t) \<Rightarrow> (r, IsDir directory # t))
      else
        case listdir h directory of
          Inl e \<Rightarrow> (Inl e, [IsDir directory, ListDir directory])
        | Inr names \<Rightarrow>
            (case scan_names h pre directory names of
               (es, t1) \<Rightarrow>
                 (case scan_candidates h cs of
                    (Inl e, t2) \<Rightarrow> (Inl e, IsDir directory # ListDir directory # t1 @ t2)
                  | (Inr rest, t2) \<Rightarrow>
                      (Inr (es @ rest), IsDir directory # ListDir directory # t1 @ t2))))"

definition sort_reverse :: "(rat \<times> string) list \<Rightarrow> (rat \<times> string) list" where
  \<comment> \<open>\<open>entries.sort(key=lambda x: x[0], reverse=True)\<close>: a stable sort, descending\<close>
  "sort_reverse entries = rev (sort_key fst (rev entries))"

definition videoframenode_recent :: "host \<Rightarrow> folder_paths_module \<Rightarrow> response py" where
  "videoframenode_recent h fp =
     (case
        bind (lift (get_input_directory fp)) (\<lambda>input_dir.
        bind (lift (get_output_directory fp)) (\<lambda>output_dir.
        bind (scan_candidates h [(''input'', input_dir), (''output'', output_dir)]) (\<lambda>entries.
        let files = map snd (take 50 (sort_reverse entries)) in
        return (json_response [(''files'', JList files)] 200))))
      of
        (Inl e, t) \<Rightarrow>
          (Inr (json_response [(''files'', JList []), (''error'', JStr (str_of_exn e))] 200), t)
      | (Inr r, t) \<Rightarrow> (Inr r, t))"

section \<open>What the interface description says, as definitions\<close>

definition client_error :: "response py \<Rightarrow> bool" where
  \<comment> \<open>the handler answered, with a 4xx status\<close>
  "client_error out =
     (case fst out of Inl e \<Rightarrow> False | Inr r \<Rightarrow> 400 \<le> status r \<and> status r < 500)"

definition listed_entries :: "host \<Rightarrow> string \<Rightarrow> string \<Rightarrow> string list \<Rightarrow> (rat \<times> string) list" where
  \<comment> \<open>the names of a directory with the accepted extension, each with its
      modification time (zero when the time cannot be read) and tagged with the prefix\<close>
  "listed_entries h pre directory names =
     map (\<lambda>name. (getmtime_or_zero h (os_path_join directory name), pre @ ''/'' @ name))
       (filter (\<lambda>name. endswith (lower name) ''.mp4'') names)"

section \<open>A concrete host\<close>

fun bgr_to_rgb :: "byte list \<Rightarrow> byte list" where
  "bgr_to_rgb (b # g # r # rest) = r # g # b # bgr_to_rgb rest"
| "bgr_to_rgb rest = rest"

definition demo_frame :: ndarray where
  "demo_frame = \<lparr>shape = [1, 1, 3], data = [10, 20, 255]\<rparr>"

definition demo_capture :: capture where
  "demo_capture =
     \<lparr>isOpened = True, reads = [Some demo_frame], frame_count_prop = 1,
      reads_after_set = (\<lambda>n. [])\<rparr>"

definition demo_cv2 :: cv2_module where
  "demo_cv2 =
     \<lparr>open_capture = (\<lambda>p. demo_capture),
      cvtColor_BGR2RGB = (\<lambda>a. a\<lparr>data := bgr_to_rgb (data a)\<rparr>)\<rparr>"

definition demo_folder_paths :: folder_paths_module where
  "demo_folder_paths =
     \<lparr>get_input_directory = Inr ''/srv/input'',
      get_output_directory = Inr ''/srv/output'',
      get_temp_directory = Inr ''/srv/temp''\<rparr>"

definition demo_host :: host where
  "demo_host =
     \<lparr>folder_paths = Some demo_folder_paths,
      isfile = (\<lambda>p. p = ''/srv/input/a.mp4'' \<or> p = ''/srv/input/B.MP4''),
      isdir = (\<lambda>d. d = ''/srv/input''),
      listdir = (\<lambda>d. if d = ''/srv/input'' then Inr [''a.mp4'', ''notes.txt'', ''B.MP4'']
                       else Inl (OSError ''No such directory'')),
      getmtime = (\<lambda>p. if p = ''/srv/input/B.MP4'' then Inr 7
                        else Inl (OSError ''No such file'')),
      makedirs = (\<lambda>d. None),
      write_file = (\<lambda>p d. None),
      expanduser = (\<lambda>p. p),
      expandvars = (\<lambda>p. p),
      cv2 = Some demo_cv2,
      imageio = None,
      pil_save = None,
      uuid4_hex = ''0123456789abcdef0123456789abcdef''\<rparr>"

definition readonly_host :: host where
  \<comment> \<open>the same host on a file system that refuses to create directories\<close>
  "readonly_host = demo_host\<lparr>makedirs := (\<lambda>d. Some (OSError ''Read-only file system''))\<rparr>"

section \<open>Auxiliary facts\<close>

lemmas py_defs = return_def raise_def lift_def emit_def bind_def except_pass_def
  import_folder_paths_def os_path_isfile_def

subsection \<open>Path resolution\<close>

lemma prefix_rule_Some:
  "prefix_rule h l v p d = (Inr (Some c), t) \<Longrightarrow> isfile h c \<and> IsFile c \<in> set t"
  by (auto simp: prefix_rule_def py_defs Let_def split: sum.splits if_splits)

lemma prefixed_block_Some:
  "prefixed_block h l v = (Inr (Some c), t) \<Longrightarrow> isfile h c \<and> IsFile c \<in> set t"
  unfolding prefixed_block_def bind_def import_folder_paths_def return_def raise_def
  by (auto split: option.splits sum.splits prod.splits dest: prefix_rule_Some)

lemma plain_block_Some:
  "plain_block h v = (Inr (Some c), t) \<Longrightarrow> isfile h c \<and> IsFile c \<in> set t"
  by (auto simp: plain_block_def py_defs Let_def split: option.splits sum.splits if_splits)

lemma except_pass_cases:
  obtains t where "except_pass m = (Inr None, t)"
  | c t where "except_pass m = (Inr (Some c), t)" "m = (Inr (Some c), t)"
  by (cases m; cases "fst m"; cases "projr (fst m)"; auto simp: except_pass_def)

lemma lower_char_slash: "lower_char c = slash \<longleftrightarrow> c = slash"
proof
  assume a: "lower_char c = slash"
  show "c = slash"
  proof (rule ccontr)
    assume n: "c \<noteq> slash"
    with a have up: "(65 \<le> (of_char c :: nat) \<and> (of_char c :: nat) \<le> 90) \<or>
        (192 \<le> (of_char c :: nat) \<and> (of_char c :: nat) \<le> 222 \<and> (of_char c :: nat) \<noteq> 215)"
      and eq: "char_of ((of_char c :: nat) + 32) = slash"
      by (auto simp: lower_char_def Let_def split: if_splits)
    from eq have "(of_char (char_of ((of_char c :: nat) + 32)) :: nat) = of_char slash" by simp
    then have "((of_char c :: nat) + 32) mod 256 = 47" by (simp add: slash_def)
    with up show False by auto
  qed
next
  assume "c = slash"
  then show "lower_char c = slash" by (simp add: lower_char_def slash_def)
qed

lemma bare_lowered:
  assumes "slash \<notin> set v" "backslash \<notin> set v"
  shows "slash \<notin> set (lower (replace_backslash v))"
proof
  assume "slash \<in> set (lower (replace_backslash v))"
  then obtain x where x: "x \<in> set v"
    and "lower_char (if x = backslash then slash else x) = slash"
    by (auto simp: lower_def replace_backslash_def)
  then have "(if x = backslash then slash else x) = slash"
    by (simp only: lower_char_slash)
  with assms x show False by (auto split: if_splits)
qed

lemma startswith_slash: "startswith l (p @ [slash]) \<Longrightarrow> slash \<in> set l"
  by (auto simp: startswith_def prefix_def)

lemma prefix_rule_miss:
  "\<not> startswith l p \<Longrightarrow> prefix_rule h l v p d = (Inr None, [])"
  by (simp add: prefix_rule_def return_def)

lemma prefix_rule_hit:
  "startswith l p \<Longrightarrow> split_slash_1 v = [a, rest] \<Longrightarrow>
   prefix_rule h l v p (Inr d) =
     (Inr (if isfile h (os_path_join d rest) then Some (os_path_join d rest) else None),
      [IsFile (os_path_join d rest)])"
  by (simp add: prefix_rule_def py_defs index1_def Let_def)

lemma plain_block_eval:
  "folder_paths h = Some fp \<Longrightarrow> get_input_directory fp = Inr d \<Longrightarrow>
   plain_block h v =
     (Inr (if isfile h (os_path_join d v) then Some (os_path_join d v) else None),
      [IsFile (os_path_join d v)])"
  by (simp add: plain_block_def py_defs Let_def)

lemma lowered_input:
  "lower (replace_backslash (''input/'' @ rest)) = ''input/'' @ lower (replace_backslash rest)"
  by (simp add: lower_def replace_backslash_def lower_char_def backslash_def slash_def)

lemma split_input: "split_slash_1 (''input/'' @ rest) = [''input'', rest]"
  by (simp add: split_slash_1_def slash_def)

lemma resolve_input_prefixed:
  assumes fp: "folder_paths h = Some fp" and d: "get_input_directory fp = Inr d"
    and v: "strip v = ''input/'' @ rest"
  shows "fst (resolve_video_path h (Some v)) =
     Inr (if isfile h (os_path_join d rest) then os_path_join d rest
          else if isfile h (os_path_join d (strip v)) then os_path_join d (strip v)
          else strip v)"
proof -
  let ?l = "lower (replace_backslash (strip v))"
  have s: "startswith ?l ''input/''" "\<not> startswith ?l ''output/''" "\<not> startswith ?l ''temp/''"
    by (simp_all only: v lowered_input startswith_def) simp_all
  have sp: "split_slash_1 (strip v) = [''input'', rest]"
    by (simp only: v split_input)
  have pb: "prefixed_block h ?l (strip v) =
      (Inr (if isfile h (os_path_join d rest) then Some (os_path_join d rest) else None),
       [IsFile (os_path_join d rest)])"
    unfolding prefixed_block_def
    by (simp add: fp d import_folder_paths_def return_def bind_def
          prefix_rule_hit [OF s(1) sp] prefix_rule_miss [OF s(2)] prefix_rule_miss [OF s(3)])
  have ne: "strip v \<noteq> []" by (simp add: v)
  show ?thesis
    unfolding resolve_video_path_def Let_def
    by (simp add: ne pb plain_block_eval [OF fp d] except_pass_def bind_def return_def)
qed

lemma resolve_bare:
  assumes fp: "folder_paths h = Some fp" and d: "get_input_directory fp = Inr d"
    and ne: "strip v \<noteq> []" and b: "slash \<notin> set (strip v)" "backslash \<notin> set (strip v)"
  shows "fst (resolve_video_path h (Some v)) =
     Inr (if isfile h (os_path_join d (strip v)) then os_path_join d (strip v) else strip v)"
proof -
  let ?l = "lower (replace_backslash (strip v))"
  have "slash \<notin> set ?l" using b by (rule bare_lowered)
  then have s: "\<not> startswith ?l ''input/''" "\<not> startswith ?l ''output/''"
      "\<not> startswith ?l ''temp/''"
    using startswith_slash [of ?l "''input''"] startswith_slash [of ?l "''output''"]
      startswith_slash [of ?l "''temp''"]
    by (auto simp: slash_def)
  have pb: "prefixed_block h ?l (strip v) = (Inr None, [])"
    unfolding prefixed_block_def
    by (simp add: fp import_folder_paths_def return_def bind_def
          prefix_rule_miss [OF s(1)] prefix_rule_miss [OF s(2)] prefix_rule_miss [OF s(3)])
  show ?thesis
    unfolding resolve_video_path_def Let_def
    by (simp add: ne pb plain_block_eval [OF fp d] except_pass_def bind_def return_def)
qed

subsection \<open>Decoding and conversion\<close>

lemma scan_to_end_no_more: "rest = [] \<or> hd rest = None \<Longrightarrow> scan_to_end rest f = f"
  by (cases rest) auto

lemma length3_cases: "length xs = 3 \<Longrightarrow> \<exists>x y z. xs = [x, y, z]"
  by (cases xs; simp; rename_tac a as; case_tac as; simp; rename_tac b bs; case_tac bs; simp)

lemma byte_scaled_range:
  "0 \<le> (of_nat (unat (x :: 8 word)) / 255 :: rat) \<and> (of_nat (unat x) / 255 :: rat) \<le> 1"
proof -
  have "unat x < 256" using unsigned_less [of x, where ?'a = nat] by simp
  then have "unat x \<le> 255" by simp
  then have "(of_nat (unat x) :: rat) \<le> of_nat 255" by (simp only: of_nat_le_iff)
  then show ?thesis by (simp del: of_nat_unat)
qed

subsection \<open>Source resolution\<close>

lemma list_all_tensors: "list_all is_tensor (map PTensor ts)"
  by (induction ts) auto

lemma from_sequence_tensors:
  "ts \<noteq> [] \<Longrightarrow>
   from_sequence (map PTensor ts) =
     Some (None,
       Some (if length (tshape (hd ts)) = 3 then (hd ts)\<lparr>tshape := 1 # tshape (hd ts)\<rparr> else hd ts),
       Some (if length (tshape (last ts)) = 3 then (last ts)\<lparr>tshape := 1 # tshape (last ts)\<rparr>
             else last ts))"
  by (cases ts) (simp_all add: from_sequence_def list_all_tensors ndim_def unsqueeze0_def last_map)

subsection \<open>Endpoints\<close>

lemma basename_no_slash: "slash \<notin> set (os_path_basename n)"
  by (auto simp: os_path_basename_def dest: set_takeWhileD)

lemma upload_accepted_not_client_error:
  assumes "map_of post ''file'' = Some f" and "endswith (lower (field_filename f)) ''.mp4''"
  shows "\<not> client_error (videoframenode_upload h fp (Inr post))"
  using assms
  by (auto simp: videoframenode_upload_def client_error_def bind_def lift_def return_def
        os_makedirs_def open_write_def json_response_def file_read_def Let_def
      split: sum.splits option.splits prod.splits field.splits)

lemma upload_rejected:
  "client_error (videoframenode_upload h fp (Inl e))"
  "map_of post ''file'' = None \<Longrightarrow> client_error (videoframenode_upload h fp (Inr post))"
  "map_of post ''file'' = Some f \<Longrightarrow> \<not> endswith (lower (field_filename f)) ''.mp4'' \<Longrightarrow>
     client_error (videoframenode_upload h fp (Inr post))"
  by (simp_all add: videoframenode_upload_def client_error_def return_def json_response_def)

lemma upload_stores:
  assumes "map_of post ''file'' = Some (FileField n d)" and "endswith (lower n) ''.mp4''"
    and "get_input_directory fp = Inr dir" and "makedirs h dir = None"
    and "write_file h (os_path_join dir (os_path_basename n)) d = None"
  shows "videoframenode_upload h fp (Inr post) =
     (Inr (json_response [(''name'', JStr (os_path_basename n))] 200),
      [MakeDirs dir, WriteFile (os_path_join dir (os_path_basename n)) d])"
  using assms
  by (simp add: videoframenode_upload_def bind_def lift_def return_def field_filename_def
        os_makedirs_def open_write_def file_read_def Let_def)

lemma scan_names_entries: "fst (scan_names h pre d names) = listed_entries h pre d names"
  by (induction names) (auto simp: listed_entries_def Let_def split: prod.splits)

lemma mset_sort_reverse: "mset (sort_reverse es) = mset es"
  by (simp add: sort_reverse_def)

lemma sort_reverse_descending: "sorted_wrt (\<lambda>a b. fst b \<le> fst a) (sort_reverse es)"
proof -
  have "sorted (map fst (sort_key fst (rev es)))" by (rule sorted_sort_key)
  then have "sorted_wrt (\<lambda>a b. fst a \<le> fst b) (sort_key fst (rev es))"
    by (simp add: sorted_map)
  then show ?thesis
    by (simp add: sort_reverse_def sorted_wrt_rev)
qed

lemma listed_entries_tagged:
  "x \<in> set (listed_entries h pre d names) \<Longrightarrow> \<exists>name. snd x = pre @ ''/'' @ name"
  by (auto simp: listed_entries_def)

lemma scan_candidates_two:
  assumes "isdir h di \<longrightarrow> listdir h di = Inr ni"
    and "isdir h d2 \<longrightarrow> listdir h d2 = Inr n2"
  shows "fst (scan_candidates h [(''input'', di), (''output'', d2)]) =
     Inr ((if isdir h di then listed_entries h ''input'' di ni else []) @
          (if isdir h d2 then listed_entries h ''output'' d2 n2 else []))"
  using assms scan_names_entries [of h "''input''" di ni]
    scan_names_entries [of h "''output''" d2 n2]
  by (auto split: prod.splits)

lemma recent_always_answers:
  "\<exists>r t. videoframenode_recent h fp = (Inr r, t) \<and> status r = 200"
  unfolding videoframenode_recent_def
  by (cases "get_input_directory fp"; cases "get_output_directory fp";
      auto simp: bind_def lift_def return_def json_response_def Let_def
        split: prod.splits sum.splits)

lemma recent_success:
  assumes "get_input_directory fp = Inr di" and "get_output_directory fp = Inr d2"
    and "isdir h di \<longrightarrow> listdir h di = Inr ni"
    and "isdir h d2 \<longrightarrow> listdir h d2 = Inr n2"
  shows "fst (videoframenode_recent h fp) =
     Inr (json_response [(''files'', JList (map snd (take 50 (sort_reverse
         ((if isdir h di then listed_entries h ''input'' di ni else []) @
          (if isdir h d2 then listed_entries h ''output'' d2 n2 else []))))))] 200)"
proof -
  obtain r t where rt: "scan_candidates h [(''input'', di), (''output'', d2)] = (r, t)"
    by (cases "scan_candidates h [(''input'', di), (''output'', d2)]")
  with scan_candidates_two [OF assms(3) assms(4)]
  have r: "r = Inr ((if isdir h di then listed_entries h ''input'' di ni else []) @
          (if isdir h d2 then listed_entries h ''output'' d2 n2 else []))" by simp
  show ?thesis
    unfolding videoframenode_recent_def
    by (simp add: assms(1) assms(2) rt r bind_def lift_def return_def Let_def
          del: scan_candidates.simps)
qed

lemma recent_failure_dirs:
  "get_input_directory fp = Inl e \<Longrightarrow>
     fst (videoframenode_recent h fp) =
       Inr (json_response [(''files'', JList []), (''error'', JStr (str_of_exn e))] 200)"
  "get_input_directory fp = Inr di \<Longrightarrow> get_output_directory fp = Inl e \<Longrightarrow>
     fst (videoframenode_recent h fp) =
       Inr (json_response [(''files'', JList []), (''error'', JStr (str_of_exn e))] 200)"
  unfolding videoframenode_recent_def
  by (simp_all add: bind_def lift_def return_def)

lemma recent_failure_listdir_input:
  assumes "get_input_directory fp = Inr di" and "get_output_directory fp = Inr d2"
    and "isdir h di" and "listdir h di = Inl e"
  shows "fst (videoframenode_recent h fp) =
       Inr (json_response [(''files'', JList []), (''error'', JStr (str_of_exn e))] 200)"
  unfolding videoframenode_recent_def
  using assms by (simp add: bind_def lift_def return_def)

lemma recent_failure_listdir_output:
  assumes "get_input_directory fp = Inr di" and "get_output_directory fp = Inr d2"
    and "isdir h di \<longrightarrow> listdir h di = Inr ni"
    and "isdir h d2" and "listdir h d2 = Inl e"
  shows "fst (videoframenode_recent h fp) =
       Inr (json_response [(''files'', JList []), (''error'', JStr (str_of_exn e))] 200)"
  unfolding videoframenode_recent_def
  using assms by (auto simp: bind_def lift_def return_def split: prod.splits)

section \<open>The claims\<close>

text \<open>
  C1. A video file with exactly one frame: the file exists, OpenCV opens it, the first
  read gives a frame, the reported frame count is not greater than 1 and the next read
  of the sequential scan gives nothing. Then \<open>_read_first_last_frames\<close> returns the
  first frame, converted to RGB, as both the first and the last pixel array.
\<close>

theorem single_frame_first_is_last:
  assumes "strip p \<noteq> []"
    and "isfile h (expandvars h (expanduser h (strip p)))"
    and "cv2 h = Some m"
    and "cap = open_capture m (expandvars h (expanduser h (strip p)))"
    and "isOpened cap"
    and "reads cap = Some f # rest"
    and "rest = [] \<or> hd rest = None"
    and "py_int (frame_count_prop cap) \<le> 1"
  shows "fst (read_first_last_frames h (PStr p)) =
           Inr (cvtColor_BGR2RGB m f, cvtColor_BGR2RGB m f)"
  using assms
  by (simp add: read_first_last_frames_def read_with_cv2_def py_defs cap_read_def Let_def
        scan_to_end_no_more)

theorem single_frame_first_is_last_witness:
  "fst (read_first_last_frames demo_host (PStr '' /srv/input/a.mp4 '')) =
     Inr (\<lparr>shape = [1, 1, 3], data = [255, 20, 10]\<rparr>,
          \<lparr>shape = [1, 1, 3], data = [255, 20, 10]\<rparr>)"
proof -
  let ?p = "'' /srv/input/a.mp4 ''"
  have 1: "strip ?p \<noteq> []" by code_simp
  have 2: "isfile demo_host (expandvars demo_host (expanduser demo_host (strip ?p)))"
    by code_simp
  have 3: "cv2 demo_host = Some demo_cv2" by (simp add: demo_host_def)
  have 4: "demo_capture =
      open_capture demo_cv2 (expandvars demo_host (expanduser demo_host (strip ?p)))"
    by (simp add: demo_cv2_def)
  have 5: "isOpened demo_capture" by (simp add: demo_capture_def)
  have 6: "reads demo_capture = Some demo_frame # []" by (simp add: demo_capture_def)
  have 7: "[] = [] \<or> hd [] = (None :: ndarray option)" by simp
  have 8: "py_int (frame_count_prop demo_capture) \<le> 1" by code_simp
  from single_frame_first_is_last [OF 1 2 3 4 5 6 7 8]
  show ?thesis by (simp add: demo_cv2_def demo_frame_def)
qed

text \<open>
  C2. \<open>_to_comfy_image\<close> raises \<open>ValueError\<close> for a null input and for an array whose
  shape is not \<open>H \<times> W \<times> 3\<close>. For an \<open>H \<times> W \<times> 3\<close> array of bytes it returns a tensor of
  shape \<open>1 \<times> H \<times> W \<times> 3\<close> with one value per input value, each the input value divided
  by 255 (the exact quotient: the rounding to single precision is not modelled), and so
  between 0 and 1.
\<close>

theorem to_comfy_image_contract:
  "to_comfy_image None = Inl (ValueError ''Got empty frame'') \<and>
   ((\<nexists>H W. shape a = [H, W, 3]) \<longrightarrow> (\<exists>msg. to_comfy_image (Some a) = Inl (ValueError msg))) \<and>
   (shape a = [H, W, 3] \<longrightarrow>
      (\<exists>t. to_comfy_image (Some a) = Inr t \<and> tshape t = [1, H, W, 3] \<and>
           length (tdata t) = length (data a) \<and>
           (\<forall>i < length (data a). tdata t ! i = of_nat (unat (data a ! i)) / 255 \<and>
              0 \<le> tdata t ! i \<and> tdata t ! i \<le> 1)))"
proof (intro conjI impI)
  show "to_comfy_image None = Inl (ValueError ''Got empty frame'')"
    by (simp add: to_comfy_image_def)
next
  assume n: "\<nexists>H W. shape a = [H, W, 3]"
  have "length (shape a) \<noteq> 3 \<or> shape a ! 2 \<noteq> 3"
  proof (rule ccontr)
    assume "\<not> (length (shape a) \<noteq> 3 \<or> shape a ! 2 \<noteq> 3)"
    then have l: "length (shape a) = 3" and c: "shape a ! 2 = 3" by auto
    from length3_cases [OF l] obtain x y z where "shape a = [x, y, z]" by blast
    with c n show False by simp
  qed
  then show "\<exists>msg. to_comfy_image (Some a) = Inl (ValueError msg)"
    by (auto simp: to_comfy_image_def)
next
  assume s: "shape a = [H, W, 3]"
  show "\<exists>t. to_comfy_image (Some a) = Inr t \<and> tshape t = [1, H, W, 3] \<and>
           length (tdata t) = length (data a) \<and>
           (\<forall>i < length (data a). tdata t ! i = of_nat (unat (data a ! i)) / 255 \<and>
              0 \<le> tdata t ! i \<and> tdata t ! i \<le> 1)"
    using byte_scaled_range by (simp add: to_comfy_image_def s del: of_nat_unat)
qed

theorem to_comfy_image_contract_witness:
  "(\<exists>msg. to_comfy_image (Some \<lparr>shape = [4, 4], data = []\<rparr>) = Inl (ValueError msg)) \<and>
   (\<exists>t. to_comfy_image (Some demo_frame) = Inr t \<and> tshape t = [1, 1, 1, 3] \<and>
        length (tdata t) = 3 \<and> tdata t ! 2 = 1)"
proof -
  have 1: "\<nexists>H W. shape \<lparr>shape = [4, 4], data = []\<rparr> = [H, W, 3]" by simp
  have 2: "shape demo_frame = [1, 1, 3]" by (simp add: demo_frame_def)
  have 3: "length (data demo_frame) = 3" "data demo_frame ! 2 = 255"
    by (simp_all add: demo_frame_def)
  from to_comfy_image_contract [of "\<lparr>shape = [4, 4], data = []\<rparr>"] 1
  have a: "\<exists>msg. to_comfy_image (Some \<lparr>shape = [4, 4], data = []\<rparr>) = Inl (ValueError msg)"
    by blast
  from to_comfy_image_contract [of demo_frame 1 1] 2
  obtain t where t: "to_comfy_image (Some demo_frame) = Inr t" "tshape t = [1, 1, 1, 3]"
    "length (tdata t) = length (data demo_frame)"
    "\<forall>i < length (data demo_frame). tdata t ! i = of_nat (unat (data demo_frame ! i)) / 255 \<and>
       0 \<le> tdata t ! i \<and> tdata t ! i \<le> 1"
    by blast
  have "2 < length (data demo_frame)" by (simp add: 3)
  with t(4) have "tdata t ! 2 = of_nat (unat (data demo_frame ! 2)) / 255" by blast
  then have "tdata t ! 2 = of_nat (unat (255 :: 8 word)) / 255" by (simp only: 3)
  then have "tdata t ! 2 = 1" by simp
  with a t 3 show ?thesis by auto
qed

text \<open>
  C3. For a non-empty list or tuple whose items are all tensors, \<open>_extract_video_source\<close>
  returns no path and the first and the last item as the frame pair, each with a leading
  dimension of size 1 added when it has three dimensions; \<open>load\<close> then returns with no
  call to the file system or to a decoder (its event list is empty).
\<close>

theorem tensor_collection_first_last:
  assumes "ts \<noteq> []"
  shows "extract_video_source (PList (map PTensor ts)) =
      (None,
       Some (if length (tshape (hd ts)) = 3 then (hd ts)\<lparr>tshape := 1 # tshape (hd ts)\<rparr> else hd ts),
       Some (if length (tshape (last ts)) = 3 then (last ts)\<lparr>tshape := 1 # tshape (last ts)\<rparr>
             else last ts)) \<and>
    extract_video_source (PTuple (map PTensor ts)) =
      extract_video_source (PList (map PTensor ts)) \<and>
    snd (load h video (PList (map PTensor ts))) = [] \<and>
    snd (load h video (PTuple (map PTensor ts))) = []"
  using assms
  by (simp add: extract_video_source_def unwrap_dict_def from_sequence_tensors load_def return_def)

theorem tensor_collection_first_last_witness:
  "extract_video_source
     (PList [PTensor \<lparr>tshape = [1, 1, 3], tdata = [0, 1, 0]\<rparr>,
             PTensor \<lparr>tshape = [1, 1, 1, 3], tdata = [1, 1, 1]\<rparr>,
             PTensor \<lparr>tshape = [1, 1, 1, 3], tdata = [0, 0, 1]\<rparr>]) =
     (None, Some \<lparr>tshape = [1, 1, 1, 3], tdata = [0, 1, 0]\<rparr>,
            Some \<lparr>tshape = [1, 1, 1, 3], tdata = [0, 0, 1]\<rparr>) \<and>
   snd (load demo_host ''a.mp4''
     (PList [PTensor \<lparr>tshape = [1, 1, 3], tdata = [0, 1, 0]\<rparr>,
             PTensor \<lparr>tshape = [1, 1, 1, 3], tdata = [1, 1, 1]\<rparr>,
             PTensor \<lparr>tshape = [1, 1, 1, 3], tdata = [0, 0, 1]\<rparr>])) = []"
  using tensor_collection_first_last
    [of "[\<lparr>tshape = [1, 1, 3], tdata = [0, 1, 0]\<rparr>,
          \<lparr>tshape = [1, 1, 1, 3], tdata = [1, 1, 1]\<rparr>,
          \<lparr>tshape = [1, 1, 1, 3], tdata = [0, 0, 1]\<rparr>]" demo_host "''a.mp4''"]
  by simp

text \<open>
  C4. With the host's input directory \<open>d\<close> available: a string that, stripped, is
  \<open>input/\<close> followed by a remainder resolves to \<open>d\<close> joined with the remainder when
  that file exists, and otherwise falls through to the rule for plain names without
  raising; a bare file name (no separator in it) resolves to \<open>d\<close> joined with the name
  when that file exists, and to the stripped string itself when it does not.
\<close>

theorem resolve_video_path_rules:
  assumes "folder_paths h = Some fp" and "get_input_directory fp = Inr d"
  shows "(strip v = ''input/'' @ rest \<longrightarrow>
      fst (resolve_video_path h (Some v)) =
        Inr (if isfile h (os_path_join d rest) then os_path_join d rest
             else if isfile h (os_path_join d (strip v)) then os_path_join d (strip v)
             else strip v)) \<and>
    (strip v \<noteq> [] \<and> slash \<notin> set (strip v) \<and> backslash \<notin> set (strip v) \<longrightarrow>
      fst (resolve_video_path h (Some v)) =
        Inr (if isfile h (os_path_join d (strip v)) then os_path_join d (strip v)
             else strip v))"
  using resolve_input_prefixed [OF assms] resolve_bare [OF assms] by blast

theorem resolve_video_path_rules_witness:
  "fst (resolve_video_path demo_host (Some '' input/a.mp4 '')) = Inr ''/srv/input/a.mp4'' \<and>
   fst (resolve_video_path demo_host (Some ''input/zzz.mp4'')) = Inr ''input/zzz.mp4'' \<and>
   fst (resolve_video_path demo_host (Some ''a.mp4'')) = Inr ''/srv/input/a.mp4'' \<and>
   fst (resolve_video_path demo_host (Some ''missing.mp4'')) = Inr ''missing.mp4''"
proof -
  have fp: "folder_paths demo_host = Some demo_folder_paths" by (simp add: demo_host_def)
  have d: "get_input_directory demo_folder_paths = Inr ''/srv/input''"
    by (simp add: demo_folder_paths_def)
  note r = resolve_video_path_rules [OF fp d]
  have s: "strip '' input/a.mp4 '' = ''input/'' @ ''a.mp4''"
    "strip ''input/zzz.mp4'' = ''input/'' @ ''zzz.mp4''"
    "strip ''a.mp4'' = ''a.mp4''" "strip ''missing.mp4'' = ''missing.mp4''"
    by code_simp+
  have f: "isfile demo_host (os_path_join ''/srv/input'' ''a.mp4'')"
    "\<not> isfile demo_host (os_path_join ''/srv/input'' ''zzz.mp4'')"
    "\<not> isfile demo_host (os_path_join ''/srv/input'' ''input/zzz.mp4'')"
    "\<not> isfile demo_host (os_path_join ''/srv/input'' ''missing.mp4'')"
    "os_path_join ''/srv/input'' ''a.mp4'' = ''/srv/input/a.mp4''"
    by code_simp+
  have b: "slash \<notin> set ''a.mp4''" "backslash \<notin> set ''a.mp4''"
    "slash \<notin> set ''missing.mp4''" "backslash \<notin> set ''missing.mp4''"
    by code_simp+
  from r [of "'' input/a.mp4 ''" "''a.mp4''"] s(1) f
  have 1: "fst (resolve_video_path demo_host (Some '' input/a.mp4 '')) = Inr ''/srv/input/a.mp4''"
    by simp
  from r [of "''input/zzz.mp4''" "''zzz.mp4''"] s(2) f
  have 2: "fst (resolve_video_path demo_host (Some ''input/zzz.mp4'')) = Inr ''input/zzz.mp4''"
    by simp
  from r [of "''a.mp4''" "[]"] s(3) f b
  have 3: "fst (resolve_video_path demo_host (Some ''a.mp4'')) = Inr ''/srv/input/a.mp4''"
    by simp
  from r [of "''missing.mp4''" "[]"] s(4) f b
  have 4: "fst (resolve_video_path demo_host (Some ''missing.mp4'')) = Inr ''missing.mp4''"
    by simp
  from 1 2 3 4 show ?thesis by simp
qed

text \<open>
  C5. \<open>_read_first_last_frames\<close> on a string that is empty or only whitespace raises
  \<open>ValueError\<close>, with no call to the host. On any other string whose stripped and
  expanded form is not an existing regular file it raises \<open>FileNotFoundError\<close>, and its
  only call to the host is that file test: no decoding backend is tried.
\<close>

theorem not_found_before_decoding:
  "(strip p = [] \<longrightarrow>
      read_first_last_frames h (PStr p) = (Inl (ValueError ''video_path is required''), [])) \<and>
   (strip p \<noteq> [] \<and> \<not> isfile h (expandvars h (expanduser h (strip p))) \<longrightarrow>
      read_first_last_frames h (PStr p) =
        (Inl (FileNotFoundError
               (''Video file not found: '' @ expandvars h (expanduser h (strip p)))),
         [IsFile (expandvars h (expanduser h (strip p)))]))"
  by (simp add: read_first_last_frames_def py_defs Let_def)

theorem not_found_before_decoding_witness:
  "read_first_last_frames demo_host (PStr ''   '') =
     (Inl (ValueError ''video_path is required''), []) \<and>
   read_first_last_frames demo_host (PStr '' /nowhere.mp4'') =
     (Inl (FileNotFoundError ''Video file not found: /nowhere.mp4''), [IsFile ''/nowhere.mp4''])"
proof -
  have 1: "strip ''   '' = []" by code_simp
  have 2: "strip '' /nowhere.mp4'' = ''/nowhere.mp4''" by code_simp
  have 3: "expandvars demo_host (expanduser demo_host ''/nowhere.mp4'') = ''/nowhere.mp4''"
    "\<not> isfile demo_host ''/nowhere.mp4''"
    by (simp_all add: demo_host_def)
  from not_found_before_decoding [of "''   ''" demo_host]
    not_found_before_decoding [of "'' /nowhere.mp4''" demo_host] 1 2 3
  show ?thesis by simp
qed

text \<open>
  C6. Let the extraction reach the preview step: no frames came with the payload, the
  path resolved, the two frames were read and both convert. When persisting the preview
  fails, at whichever step and with whichever exception, \<open>_save_temp_preview_png\<close>
  returns \<open>None\<close> and \<open>load\<close> returns the two converted tensors without a preview;
  when it succeeds, \<open>load\<close> returns the same two tensors together with the preview.
\<close>

theorem preview_failure_is_swallowed:
  assumes src: "extract_video_source video_in = (path_from_in, None, None)"
    and res: "resolve_video_path h (Some (or_else path_from_in video)) = (Inr video_path, t1)"
    and rd: "read_first_last_frames h (PStr video_path) = (Inr (first_rgb, last_rgb), t2)"
    and a: "to_comfy_image (Some first_rgb) = Inr a"
    and b: "to_comfy_image (Some last_rgb) = Inr b"
  shows "case fst (persist_preview h first_rgb) of
           Inl e \<Rightarrow> fst (save_temp_preview_png h first_rgb) = Inr None \<and>
                    fst (load h video video_in) = Inr (Frames a b)
         | Inr p \<Rightarrow> fst (save_temp_preview_png h first_rgb) = Inr (Some p) \<and>
                    fst (load h video video_in) = Inr (WithUI p a b)"
proof (cases "persist_preview h first_rgb")
  case (Pair r t)
  show ?thesis
  proof (cases r)
    case (Inl e)
    with Pair have s: "save_temp_preview_png h first_rgb = (Inr None, t)"
      by (simp add: save_temp_preview_png_def except_return_None_def)
    show ?thesis
      using Pair Inl
      by (simp add: load_def src res rd a b s bind_def lift_def return_def)
  next
    case (Inr p)
    with Pair have s: "save_temp_preview_png h first_rgb = (Inr (Some p), t)"
      by (simp add: save_temp_preview_png_def except_return_None_def)
    show ?thesis
      using Pair Inr
      by (simp add: load_def src res rd a b s bind_def lift_def return_def)
  qed
qed

theorem preview_failure_is_swallowed_witness:
  "fst (save_temp_preview_png demo_host \<lparr>shape = [1, 1, 3], data = [255, 20, 10]\<rparr>) = Inr None \<and>
   fst (load demo_host ''a.mp4'' PNone) =
     Inr (Frames \<lparr>tshape = [1, 1, 1, 3], tdata = [1, 4 / 51, 2 / 51]\<rparr>
                 \<lparr>tshape = [1, 1, 1, 3], tdata = [1, 4 / 51, 2 / 51]\<rparr>)"
proof -
  let ?f = "\<lparr>shape = [1, 1, 3], data = [255, 20, 10]\<rparr> :: ndarray"
  let ?t = "\<lparr>tshape = [1, 1, 1, 3], tdata = [1, 4 / 51, 2 / 51]\<rparr> :: tensor"
  have 1: "extract_video_source PNone = (None, None, None)" by code_simp
  have 2: "resolve_video_path demo_host (Some (or_else None ''a.mp4'')) =
      (Inr ''/srv/input/a.mp4'', [IsFile ''/srv/input/a.mp4''])" by code_simp
  have 3: "read_first_last_frames demo_host (PStr ''/srv/input/a.mp4'') =
      (Inr (?f, ?f), [IsFile ''/srv/input/a.mp4'', VideoCapture ''/srv/input/a.mp4''])"
    by code_simp
  have 4: "to_comfy_image (Some ?f) = Inr ?t" by code_simp
  have 5: "fst (persist_preview demo_host ?f) = Inl (ImportError ''No module named PIL'')"
    by code_simp
  from preview_failure_is_swallowed [OF 1 2 3 4 4] 5
  show ?thesis by simp
qed

text \<open>
  C7, as the code has it. A non-empty string as the upstream payload is the video path
  and the primary argument is ignored: \<open>load\<close> does what it does on that string with
  no payload. An empty string as the payload leaves the primary argument in force.
\<close>

theorem upstream_string_overrides:
  "(s \<noteq> [] \<longrightarrow> load h video (PStr s) = load h s PNone) \<and>
   load h video (PStr []) = load h video PNone"
  by (simp add: load_def extract_video_source_def or_else_def)

theorem upstream_string_overrides_witness:
  "load demo_host ''a.mp4'' (PStr ''nowhere.mp4'') = load demo_host ''nowhere.mp4'' PNone \<and>
   load demo_host ''a.mp4'' (PStr []) = load demo_host ''a.mp4'' PNone"
  using upstream_string_overrides [of "''nowhere.mp4''" demo_host "''a.mp4''"]
  by simp

text \<open>
  C7, as stated, fails for the empty string: with the primary argument \<open>a.mp4\<close> and the
  payload \<open>""\<close>, \<open>load\<close> decodes \<open>a.mp4\<close>, whereas the empty string taken as the path
  raises \<open>ValueError\<close>.
\<close>

theorem empty_upstream_string_counterexample:
  "load demo_host ''a.mp4'' (PStr []) \<noteq> load demo_host [] PNone \<and>
   fst (load demo_host [] PNone) = Inl (ValueError ''video_path is required'') \<and>
   fst (load demo_host ''a.mp4'' (PStr [])) =
     Inr (Frames \<lparr>tshape = [1, 1, 1, 3], tdata = [1, 4 / 51, 2 / 51]\<rparr>
                 \<lparr>tshape = [1, 1, 1, 3], tdata = [1, 4 / 51, 2 / 51]\<rparr>)"
  by code_simp

text \<open>
  C8. The recent-files handler always answers with status 200. When both directory
  names are available and every existing directory can be listed, the answer's files are
  the names of the first 50 entries of a list that holds exactly the entries of the
  existing directories with the accepted extension (a directory that does not exist
  contributes nothing, an entry whose time cannot be read has time zero), is ordered by
  time descending, and has every name tagged \<open>input/\<close> or \<open>output/\<close>. When a directory
  name cannot be obtained or a listing fails, the answer is the empty file list with the
  error's message.
\<close>

theorem recent_listing_contract:
  "(\<exists>r t. videoframenode_recent h fp = (Inr r, t) \<and> status r = 200) \<and>
   (get_input_directory fp = Inr di \<and> get_output_directory fp = Inr d2 \<and>
    (isdir h di \<longrightarrow> listdir h di = Inr ni) \<and> (isdir h d2 \<longrightarrow> listdir h d2 = Inr n2) \<longrightarrow>
      (\<exists>es. fst (videoframenode_recent h fp) =
              Inr (json_response [(''files'', JList (map snd (take 50 es)))] 200) \<and>
            mset es = mset ((if isdir h di then listed_entries h ''input'' di ni else []) @
                            (if isdir h d2 then listed_entries h ''output'' d2 n2 else [])) \<and>
            sorted_wrt (\<lambda>a b. fst b \<le> fst a) es \<and>
            length (map snd (take 50 es)) \<le> 50 \<and>
            (\<forall>x \<in> set es. \<exists>name. snd x = ''input/'' @ name \<or> snd x = ''output/'' @ name))) \<and>
   ((get_input_directory fp = Inl e \<or>
     (get_input_directory fp = Inr di \<and> get_output_directory fp = Inl e) \<or>
     (get_input_directory fp = Inr di \<and> get_output_directory fp = Inr d2 \<and>
        isdir h di \<and> listdir h di = Inl e) \<or>
     (get_input_directory fp = Inr di \<and> get_output_directory fp = Inr d2 \<and>
        (isdir h di \<longrightarrow> listdir h di = Inr ni) \<and> isdir h d2 \<and> listdir h d2 = Inl e)) \<longrightarrow>
      fst (videoframenode_recent h fp) =
        Inr (json_response [(''files'', JList []), (''error'', JStr (str_of_exn e))] 200))"
proof (intro conjI impI)
  show "\<exists>r t. videoframenode_recent h fp = (Inr r, t) \<and> status r = 200"
    by (rule recent_always_answers)
next
  assume ok: "get_input_directory fp = Inr di \<and> get_output_directory fp = Inr d2 \<and>
    (isdir h di \<longrightarrow> listdir h di = Inr ni) \<and> (isdir h d2 \<longrightarrow> listdir h d2 = Inr n2)"
  let ?all = "(if isdir h di then listed_entries h ''input'' di ni else []) @
              (if isdir h d2 then listed_entries h ''output'' d2 n2 else [])"
  let ?es = "sort_reverse ?all"
  have r: "fst (videoframenode_recent h fp) =
      Inr (json_response [(''files'', JList (map snd (take 50 ?es)))] 200)"
    using ok recent_success [of fp di d2 h ni n2] by blast
  have m: "mset ?es = mset ?all" by (rule mset_sort_reverse)
  have s: "sorted_wrt (\<lambda>a b. fst b \<le> fst a) ?es" by (rule sort_reverse_descending)
  have l: "length (map snd (take 50 ?es)) \<le> 50" by simp
  have se: "set ?es = set ?all" using m by (rule mset_eq_setD)
  have t: "\<forall>x \<in> set ?es. \<exists>name. snd x = ''input/'' @ name \<or> snd x = ''output/'' @ name"
  proof
    fix x
    assume "x \<in> set ?es"
    with se have "x \<in> set ?all" by simp
    then consider (i) "x \<in> set (listed_entries h ''input'' di ni)"
      | (o) "x \<in> set (listed_entries h ''output'' d2 n2)"
      by (auto split: if_splits)
    then show "\<exists>name. snd x = ''input/'' @ name \<or> snd x = ''output/'' @ name"
    proof cases
      case i
      from listed_entries_tagged [OF i] obtain name where "snd x = ''input'' @ ''/'' @ name"
        by blast
      then have "snd x = ''input/'' @ name" by simp
      then show ?thesis by blast
    next
      case o
      from listed_entries_tagged [OF o] obtain name where "snd x = ''output'' @ ''/'' @ name"
        by blast
      then have "snd x = ''output/'' @ name" by simp
      then show ?thesis by blast
    qed
  qed
  from r m s l t
  show "\<exists>es. fst (videoframenode_recent h fp) =
              Inr (json_response [(''files'', JList (map snd (take 50 es)))] 200) \<and>
            mset es = mset ?all \<and>
            sorted_wrt (\<lambda>a b. fst b \<le> fst a) es \<and>
            length (map snd (take 50 es)) \<le> 50 \<and>
            (\<forall>x \<in> set es. \<exists>name. snd x = ''input/'' @ name \<or> snd x = ''output/'' @ name)"
    by blast
next
  assume "get_input_directory fp = Inl e \<or>
     (get_input_directory fp = Inr di \<and> get_output_directory fp = Inl e) \<or>
     (get_input_directory fp = Inr di \<and> get_output_directory fp = Inr d2 \<and>
        isdir h di \<and> listdir h di = Inl e) \<or>
     (get_input_directory fp = Inr di \<and> get_output_directory fp = Inr d2 \<and>
        (isdir h di \<longrightarrow> listdir h di = Inr ni) \<and> isdir h d2 \<and> listdir h d2 = Inl e)"
  then show "fst (videoframenode_recent h fp) =
        Inr (json_response [(''files'', JList []), (''error'', JStr (str_of_exn e))] 200)"
    using recent_failure_dirs(1) [of fp e h] recent_failure_dirs(2) [of fp di e h]
      recent_failure_listdir_input [of fp di d2 h e]
      recent_failure_listdir_output [of fp di d2 h ni e]
    by blast
qed

theorem recent_listing_contract_witness:
  "(\<exists>es. fst (videoframenode_recent demo_host demo_folder_paths) =
            Inr (json_response [(''files'', JList (map snd (take 50 es)))] 200) \<and>
          mset es = mset [(0 :: rat, ''input/a.mp4''), (7, ''input/B.MP4'')] \<and>
          sorted_wrt (\<lambda>a b. fst b \<le> fst a) es) \<and>
   fst (videoframenode_recent (demo_host\<lparr>isdir := (\<lambda>d. True)\<rparr>) demo_folder_paths) =
     Inr (json_response [(''files'', JList []), (''error'', JStr ''No such directory'')] 200)"
proof -
  let ?names = "[''a.mp4'', ''notes.txt'', ''B.MP4'']"
  let ?h = "demo_host\<lparr>isdir := (\<lambda>d. True)\<rparr>"
  have d: "get_input_directory demo_folder_paths = Inr ''/srv/input''"
    "get_output_directory demo_folder_paths = Inr ''/srv/output''"
    by (simp_all add: demo_folder_paths_def)
  have i: "isdir demo_host ''/srv/input''" "\<not> isdir demo_host ''/srv/output''"
    "listdir demo_host ''/srv/input'' = Inr ?names"
    by (simp_all add: demo_host_def)
  have e: "listed_entries demo_host ''input'' ''/srv/input'' ?names =
      [(0 :: rat, ''input/a.mp4''), (7, ''input/B.MP4'')]"
    by code_simp
  have j: "isdir ?h ''/srv/input''" "isdir ?h ''/srv/output''"
    "listdir ?h ''/srv/input'' = Inr ?names"
    "listdir ?h ''/srv/output'' = Inl (OSError ''No such directory'')"
    by (simp_all add: demo_host_def)
  from recent_listing_contract
    [of demo_host demo_folder_paths "''/srv/input''" "''/srv/output''" ?names "[]"] d i
  have "\<exists>es. fst (videoframenode_recent demo_host demo_folder_paths) =
            Inr (json_response [(''files'', JList (map snd (take 50 es)))] 200) \<and>
          mset es = mset (listed_entries demo_host ''input'' ''/srv/input'' ?names) \<and>
          sorted_wrt (\<lambda>a b. fst b \<le> fst a) es"
    by auto
  then have 1: "\<exists>es. fst (videoframenode_recent demo_host demo_folder_paths) =
            Inr (json_response [(''files'', JList (map snd (take 50 es)))] 200) \<and>
          mset es = mset [(0 :: rat, ''input/a.mp4''), (7, ''input/B.MP4'')] \<and>
          sorted_wrt (\<lambda>a b. fst b \<le> fst a) es"
    by (simp only: e)
  from recent_listing_contract
    [of ?h demo_folder_paths "''/srv/input''" "''/srv/output''" ?names "[]"
      "OSError ''No such directory''"] d j
  have 2: "fst (videoframenode_recent ?h demo_folder_paths) =
     Inr (json_response [(''files'', JList []), (''error'', JStr ''No such directory'')] 200)"
    by simp
  from 1 2 show ?thesis by blast
qed

text \<open>
  C9, as the code has it. The upload handler answers with a 4xx status exactly when the
  form is malformed, the \<open>file\<close> field is missing, or the file name, in lower case, does
  not end in \<open>.mp4\<close>. Otherwise, when the input directory's name is available and the
  host creates the directory and writes the file, the handler's two host calls are these,
  the bytes are written under the input directory joined with the base name of the file
  name, the answer has status 200 and the stored name, and the stored name has no slash.
\<close>

theorem upload_contract:
  "(client_error (videoframenode_upload h fp req) \<longleftrightarrow>
      (case req of
         Inl e \<Rightarrow> True
       | Inr post \<Rightarrow>
           (case map_of post ''file'' of
              None \<Rightarrow> True
            | Some f \<Rightarrow> \<not> endswith (lower (field_filename f)) ''.mp4''))) \<and>
   (req = Inr post \<and> map_of post ''file'' = Some (FileField n d) \<and>
    endswith (lower n) ''.mp4'' \<and> get_input_directory fp = Inr dir \<and>
    makedirs h dir = None \<and>
    write_file h (os_path_join dir (os_path_basename n)) d = None \<longrightarrow>
      videoframenode_upload h fp req =
        (Inr (json_response [(''name'', JStr (os_path_basename n))] 200),
         [MakeDirs dir, WriteFile (os_path_join dir (os_path_basename n)) d]) \<and>
      slash \<notin> set (os_path_basename n))"
proof (intro conjI impI)
  show "client_error (videoframenode_upload h fp req) \<longleftrightarrow>
      (case req of
         Inl e \<Rightarrow> True
       | Inr post \<Rightarrow>
           (case map_of post ''file'' of
              None \<Rightarrow> True
            | Some f \<Rightarrow> \<not> endswith (lower (field_filename f)) ''.mp4''))"
  proof (cases req)
    case (Inl e)
    then show ?thesis by (simp add: upload_rejected(1))
  next
    case (Inr post')
    show ?thesis
    proof (cases "map_of post' ''file''")
      case None
      with Inr show ?thesis by (simp add: upload_rejected(2))
    next
      case (Some f)
      with Inr show ?thesis
        using upload_rejected(3) [OF Some, of h fp]
          upload_accepted_not_client_error [OF Some, of h fp]
        by auto
    qed
  qed
next
  assume "req = Inr post \<and> map_of post ''file'' = Some (FileField n d) \<and>
    endswith (lower n) ''.mp4'' \<and> get_input_directory fp = Inr dir \<and>
    makedirs h dir = None \<and>
    write_file h (os_path_join dir (os_path_basename n)) d = None"
  then show "videoframenode_upload h fp req =
        (Inr (json_response [(''name'', JStr (os_path_basename n))] 200),
         [MakeDirs dir, WriteFile (os_path_join dir (os_path_basename n)) d])"
    using upload_stores [of post n d fp dir h] by simp
next
  show "slash \<notin> set (os_path_basename n)" by (rule basename_no_slash)
qed

theorem upload_contract_witness:
  "client_error (videoframenode_upload demo_host demo_folder_paths
      (Inr [(''file'', FileField ''clip.mov'' [1, 2])])) \<and>
   videoframenode_upload demo_host demo_folder_paths
      (Inr [(''file'', FileField ''../../etc/clip.mp4'' [1, 2])]) =
     (Inr (json_response [(''name'', JStr ''clip.mp4'')] 200),
      [MakeDirs ''/srv/input'', WriteFile ''/srv/input/clip.mp4'' [1, 2]])"
proof -
  let ?mov = "Inr [(''file'', FileField ''clip.mov'' [1, 2])] :: exn + (string \<times> field) list"
  let ?post = "[(''file'', FileField ''../../etc/clip.mp4'' [1, 2])]"
  have 1: "\<not> endswith (lower (field_filename (FileField ''clip.mov'' [1, 2]))) ''.mp4''"
    by code_simp
  have 2: "map_of ?post ''file'' = Some (FileField ''../../etc/clip.mp4'' [1, 2])" by simp
  have 3: "endswith (lower ''../../etc/clip.mp4'') ''.mp4''" by code_simp
  have 4: "get_input_directory demo_folder_paths = Inr ''/srv/input''"
    by (simp add: demo_folder_paths_def)
  have 5: "makedirs demo_host ''/srv/input'' = None"
    "write_file demo_host (os_path_join ''/srv/input'' (os_path_basename ''../../etc/clip.mp4''))
       [1, 2] = None"
    by (simp_all add: demo_host_def)
  have 6: "os_path_basename ''../../etc/clip.mp4'' = ''clip.mp4''"
    "os_path_join ''/srv/input'' ''clip.mp4'' = ''/srv/input/clip.mp4''"
    by code_simp+
  from upload_contract [of demo_host demo_folder_paths ?mov] 1
  have a: "client_error (videoframenode_upload demo_host demo_folder_paths ?mov)" by simp
  from upload_contract [of demo_host demo_folder_paths "Inr ?post" ?post
      "''../../etc/clip.mp4''" "[1, 2]" "''/srv/input''"] 2 3 4 5
  have "videoframenode_upload demo_host demo_folder_paths (Inr ?post) =
      (Inr (json_response [(''name'', JStr (os_path_basename ''../../etc/clip.mp4''))] 200),
       [MakeDirs ''/srv/input'',
        WriteFile (os_path_join ''/srv/input'' (os_path_basename ''../../etc/clip.mp4'')) [1, 2]])"
    by blast
  then have b: "videoframenode_upload demo_host demo_folder_paths (Inr ?post) =
     (Inr (json_response [(''name'', JStr ''clip.mp4'')] 200),
      [MakeDirs ''/srv/input'', WriteFile ''/srv/input/clip.mp4'' [1, 2]])"
    by (simp only: 6)
  from a b show ?thesis by blast
qed

text \<open>
  C9, as stated, fails twice. The name \<open>CLIP.MP4\<close> does not end in \<open>.mp4\<close>, and the
  handler stores the file and answers 200. And for \<open>clip.mp4\<close>, on a host that refuses
  to create the directory, the handler writes nothing and answers nothing: the
  exception leaves it.
\<close>

theorem upload_counterexample:
  "\<not> endswith ''CLIP.MP4'' ''.mp4'' \<and>
   videoframenode_upload demo_host demo_folder_paths
      (Inr [(''file'', FileField ''CLIP.MP4'' [1, 2])]) =
     (Inr (json_response [(''name'', JStr ''CLIP.MP4'')] 200),
      [MakeDirs ''/srv/input'', WriteFile ''/srv/input/CLIP.MP4'' [1, 2]]) \<and>
   videoframenode_upload readonly_host demo_folder_paths
      (Inr [(''file'', FileField ''clip.mp4'' [1, 2])]) =
     (Inl (OSError ''Read-only file system''), [MakeDirs ''/srv/input''])"
  by code_simp

text \<open>
  C10. \<open>_resolve_video_path\<close> returns on every input, \<open>None\<close> or a string, and on
  every host: whatever fails inside (a host module that cannot be imported, a directory
  function that raises, the index error of a prefix written with a backslash) is
  swallowed. What it returns is the stripped input, or a path that the host reported as
  an existing file in answer to a test the function made.
\<close>

theorem resolve_video_path_total:
  "\<exists>s t. resolve_video_path h v = (Inr s, t) \<and>
     (s = strip (case v of None \<Rightarrow> [] | Some x \<Rightarrow> x) \<or> (isfile h s \<and> IsFile s \<in> set t))"
proof -
  define video where "video = strip (case v of None \<Rightarrow> [] | Some x \<Rightarrow> x)"
  define lowered where "lowered = lower (replace_backslash video)"
  have unfold: "resolve_video_path h v =
      (if video = [] then return video
       else bind (except_pass (prefixed_block h lowered video)) (\<lambda>r.
            case r of Some c \<Rightarrow> return c | None \<Rightarrow>
            bind (except_pass (plain_block h video)) (\<lambda>r'.
            case r' of Some c \<Rightarrow> return c | None \<Rightarrow> return video)))"
    unfolding resolve_video_path_def video_def lowered_def Let_def ..
  show ?thesis
  proof (cases "video = []")
    case True
    then show ?thesis by (simp add: unfold return_def video_def)
  next
    case False
    show ?thesis
    proof (rule except_pass_cases [of "prefixed_block h lowered video"])
      fix c t
      assume a: "except_pass (prefixed_block h lowered video) = (Inr (Some c), t)"
        and b: "prefixed_block h lowered video = (Inr (Some c), t)"
      from b have "isfile h c \<and> IsFile c \<in> set t" by (rule prefixed_block_Some)
      with a False show ?thesis
        by (simp add: unfold bind_def return_def)
    next
      fix t
      assume a: "except_pass (prefixed_block h lowered video) = (Inr None, t)"
      show ?thesis
      proof (rule except_pass_cases [of "plain_block h video"])
        fix c t'
        assume a': "except_pass (plain_block h video) = (Inr (Some c), t')"
          and b': "plain_block h video = (Inr (Some c), t')"
        from b' have "isfile h c \<and> IsFile c \<in> set t'" by (rule plain_block_Some)
        with a a' False show ?thesis
          by (simp add: unfold bind_def return_def)
      next
        fix t'
        assume a': "except_pass (plain_block h video) = (Inr None, t')"
        with a False show ?thesis
          by (simp add: unfold bind_def return_def video_def)
      qed
    qed
  qed
qed

theorem resolve_video_path_total_witness:
  "\<exists>s t. resolve_video_path (demo_host\<lparr>folder_paths := None\<rparr>)
            (Some (''  input'' @ [backslash] @ ''a.mp4 '')) = (Inr s, t) \<and>
     (s = ''input'' @ [backslash] @ ''a.mp4'' \<or>
      (isfile (demo_host\<lparr>folder_paths := None\<rparr>) s \<and> IsFile s \<in> set t))"
proof -
  have "strip (''  input'' @ [backslash] @ ''a.mp4 '') = ''input'' @ [backslash] @ ''a.mp4''"
    by code_simp
  with resolve_video_path_total
    [of "demo_host\<lparr>folder_paths := None\<rparr>" "Some (''  input'' @ [backslash] @ ''a.mp4 '')"]
  show ?thesis by simp
qed

end
